theory Spec2Isabelle
  imports Main
begin

section \<open>JavaScript values as the route handlers use them\<close>

text \<open>
  A sheet row is an array of strings. Reading \<open>row[i]\<close> past the end of the array gives
  \<open>undefined\<close>, written \<open>None\<close> here; \<open>!v\<close> holds of \<open>undefined\<close>, \<open>null\<close> and the
  empty string. Strings are lists of characters with codes below 256. An absent field of
  a JSON body is \<open>None\<close>, as is an absent query parameter.

  The registration route tests its \<open>phone\<close> and \<open>email\<close> with a regular expression, which
  converts its argument to a string, and compares them with \<open>===\<close>, which does not. These
  two fields are therefore arbitrary JSON values: a string, or a value that is not a
  string (a number, a boolean, an array, an object, \<open>null\<close>), given by whether it is truthy
  and by what \<open>String\<close> makes of it. The handlers treat every other field through \<open>!v\<close> only
  and pass it on; those fields are strings when present (a boolean, for \<open>enabled\<close>).
\<close>

type_synonym row = "string list"

definition cell :: "row \<Rightarrow> nat \<Rightarrow> string option" where
  "cell r i = (if i < length r then Some (r ! i) else None)"

definition falsy :: "string option \<Rightarrow> bool" where
  "falsy v = (case v of None \<Rightarrow> True | Some s \<Rightarrow> s = [])"

datatype json = Str string | NotStr bool string

definition falsy_json :: "json option \<Rightarrow> bool" where
  \<comment> \<open>\<open>!v\<close>\<close>
  "falsy_json v =
     (case v of None \<Rightarrow> True | Some (Str s) \<Rightarrow> s = [] | Some (NotStr truthy s) \<Rightarrow> \<not> truthy)"

definition json_string :: "json option \<Rightarrow> string" where
  \<comment> \<open>\<open>String(v)\<close>, as \<open>RegExp.prototype.test\<close> applies it; also the cell a sheet shows for
      the value once it is stored\<close>
  "json_string v =
     (case v of None \<Rightarrow> ''undefined'' | Some (Str s) \<Rightarrow> s | Some (NotStr truthy s) \<Rightarrow> s)"

definition strict_eq :: "string option \<Rightarrow> json option \<Rightarrow> bool" where
  \<comment> \<open>\<open>row[i] === v\<close>: a cell, a string or \<open>undefined\<close>, equals no value that is not a string\<close>
  "strict_eq c v =
     (case v of None \<Rightarrow> c = None | Some (Str s) \<Rightarrow> c = Some s | Some (NotStr truthy s) \<Rightarrow> False)"

definition or_null :: "string option \<Rightarrow> string option" where
  \<comment> \<open>\<open>v || null\<close>\<close>
  "or_null v = (if falsy v then None else v)"

definition or_empty :: "string option \<Rightarrow> string" where
  \<comment> \<open>\<open>v || ''\<close>; also how a \<open>null\<close> written to a sheet is stored: as an empty cell\<close>
  "or_empty v = (case v of None \<Rightarrow> [] | Some s \<Rightarrow> s)"

definition to_string :: "string option \<Rightarrow> string" where
  \<comment> \<open>\<open>String(v)\<close>, as a template literal and \<open>decodeURIComponent\<close> apply it\<close>
  "to_string v = (case v of None \<Rightarrow> ''undefined'' | Some s \<Rightarrow> s)"

definition set_cell :: "'a \<Rightarrow> 'a list \<Rightarrow> nat \<Rightarrow> 'a \<Rightarrow> 'a list" where
  \<comment> \<open>\<open>a[i] = v\<close> on a copy: an index past the end extends the array, the holes in
      between reading as the blank \<open>e\<close> once the array is written to a sheet\<close>
  "set_cell e a i v =
     (if i < length a then a[i := v] else a @ replicate (i - length a) e @ [v])"

fun findIndex :: "('a \<Rightarrow> bool) \<Rightarrow> 'a list \<Rightarrow> nat option" where
  "findIndex P [] = None"
| "findIndex P (x # xs) = (if P x then Some 0 else map_option Suc (findIndex P xs))"

definition bool_cell :: "bool \<Rightarrow> string" where
  \<comment> \<open>\<open>enabled ? 'true' : 'false'\<close>\<close>
  "bool_cell b = (if b then ''true'' else ''false'')"

subsection \<open>The two regular expressions of the registration route\<close>

text \<open>
  Both expressions are anchored sequences of character classes, each with a repetition
  range: an item \<open>(p, lo, hi)\<close> matches between \<open>lo\<close> and \<open>hi\<close> characters satisfying
  \<open>p\<close> (\<open>hi = None\<close> for \<open>+\<close>).
\<close>

type_synonym rx_item = "(char \<Rightarrow> bool) \<times> nat \<times> nat option"

fun rx_test :: "rx_item list \<Rightarrow> string \<Rightarrow> bool" where
  "rx_test [] s = (s = [])"
| "rx_test ((p, lo, hi) # items) s =
     list_ex (\<lambda>k. list_all p (take k s) \<and> rx_test items (drop k s))
       [lo ..< Suc (case hi of None \<Rightarrow> length s | Some h \<Rightarrow> min h (length s))]"

definition is_space :: "char \<Rightarrow> bool" where
  \<comment> \<open>\<open>\s\<close> among the characters below 256: TAB, LF, VT, FF, CR, space, NBSP\<close>
  "is_space c = ((of_char c :: nat) \<in> {9, 10, 11, 12, 13, 32, 160})"

definition is_digit :: "char \<Rightarrow> bool" where
  \<comment> \<open>\<open>\d\<close>\<close>
  "is_digit c = (48 \<le> (of_char c :: nat) \<and> (of_char c :: nat) \<le> 57)"

definition not_space_at :: "char \<Rightarrow> bool" where
  \<comment> \<open>\<open>[^\s@]\<close>\<close>
  "not_space_at c = (\<not> is_space c \<and> c \<noteq> CHR ''@'')"

definition emailRegex :: "rx_item list" where
  \<comment> \<open>\<open>/^[^\s@]+@[^\s@]+\.[^\s@]+$/\<close>\<close>
  "emailRegex =
     [(not_space_at, 1, None), (\<lambda>c. c = CHR ''@'', 1, Some 1), (not_space_at, 1, None),
      (\<lambda>c. c = CHR ''.'', 1, Some 1), (not_space_at, 1, None)]"

definition phoneRegex :: "rx_item list" where
  \<comment> \<open>\<open>/^\d{10,15}$/\<close>\<close>
  "phoneRegex = [(is_digit, 10, Some 15)]"

section \<open>The spreadsheet store\<close>

text \<open>
  The store is a set of named sheets. The \<open>companies\<close> sheet holds plain rows, the first
  of them the header; a company's sheet holds its events as named sub-tables, each a
  header row followed by data rows. Read as a whole, a sheet shows each sub-table as a
  one-cell row with its name, then its rows: this is the layout the event listing of
  \<open>GET /api/events\<close> scans for.
\<close>

record sheet =
  plain :: "row list"
  tables :: "(string \<times> row list) list"

type_synonym store = "string \<rightharpoonup> sheet"

text \<open>
  Modelled from the spec: the data-access layer \<open>@/lib/sheets\<close> is not among the source
  files. Its functions are modelled as the lookups and row inserts, updates and deletes
  the spec describes; \<open>None\<close> stands for a thrown error (the sheet or table is missing).
\<close>

definition render_table :: "string \<times> row list \<Rightarrow> row list" where
  "render_table nt = [fst nt] # snd nt"

text \<open>Modelled from the spec: \<open>getSheetData\<close>, all rows of a sheet, header first.\<close>

definition getSheetData :: "store \<Rightarrow> string \<Rightarrow> row list option" where
  "getSheetData st sheetName =
     (case st sheetName of
        None \<Rightarrow> None
      | Some s \<Rightarrow> Some (plain s @ concat (map render_table (tables s))))"

text \<open>Modelled from the spec: \<open>getTableData\<close>, the rows of a named sub-table, header first.\<close>

definition getTableData :: "store \<Rightarrow> string \<Rightarrow> string \<Rightarrow> row list option" where
  "getTableData st sheetName tableName =
     (case st sheetName of None \<Rightarrow> None | Some s \<Rightarrow> map_of (tables s) tableName)"

text \<open>
  Modelled from the spec: the update of the rows of one named sub-table, the first of
  that name, which \<open>addToTable\<close> and \<open>updateTableData\<close> share.
\<close>

fun change_table ::
  "string \<Rightarrow> (row list \<Rightarrow> row list) \<Rightarrow> (string \<times> row list) list \<Rightarrow> (string \<times> row list) list option"
where
  "change_table tableName f [] = None"
| "change_table tableName f (nt # ts) =
     (if fst nt = tableName then Some ((fst nt, f (snd nt)) # ts)
      else map_option (Cons nt) (change_table tableName f ts))"

definition with_table ::
  "store \<Rightarrow> string \<Rightarrow> string \<Rightarrow> (row list \<Rightarrow> row list) \<Rightarrow> store option" where
  "with_table st sheetName tableName f =
     (case st sheetName of
        None \<Rightarrow> None
      | Some s \<Rightarrow>
          (case change_table tableName f (tables s) of
             None \<Rightarrow> None
           | Some ts \<Rightarrow> Some (st(sheetName \<mapsto> s\<lparr>tables := ts\<rparr>))))"

text \<open>Modelled from the spec: \<open>addToTable\<close>, a row insert at the end of a sub-table.\<close>

definition addToTable :: "store \<Rightarrow> string \<Rightarrow> string \<Rightarrow> row \<Rightarrow> store option" where
  "addToTable st sheetName tableName r = with_table st sheetName tableName (\<lambda>t. t @ [r])"

text \<open>
  Modelled from the spec: \<open>updateTableData\<close>, a row update. Rows of a sub-table are
  numbered from 0, the header row being row 0 (the route handlers write the header at 0
  and the first data row at 1).
\<close>

definition updateTableData :: "store \<Rightarrow> string \<Rightarrow> string \<Rightarrow> nat \<Rightarrow> row \<Rightarrow> store option" where
  "updateTableData st sheetName tableName i r =
     with_table st sheetName tableName (\<lambda>t. set_cell [] t i r)"

text \<open>Modelled from the spec: \<open>createTable\<close>, a new named sub-table with its header row.\<close>

definition createTable :: "store \<Rightarrow> string \<Rightarrow> string \<Rightarrow> row \<Rightarrow> store option" where
  "createTable st sheetName tableName headers =
     (case st sheetName of
        None \<Rightarrow> None
      | Some s \<Rightarrow> Some (st(sheetName \<mapsto> s\<lparr>tables := tables s @ [(tableName, [headers])]\<rparr>)))"

text \<open>Modelled from the spec: the sub-tables of a sheet without the first of a given name.\<close>

fun remove_table :: "string \<Rightarrow> (string \<times> row list) list \<Rightarrow> (string \<times> row list) list option" where
  "remove_table tableName [] = None"
| "remove_table tableName (nt # ts) =
     (if fst nt = tableName then Some ts else map_option (Cons nt) (remove_table tableName ts))"

text \<open>Modelled from the spec: \<open>deleteTable\<close>, the removal of a named sub-table.\<close>

definition deleteTable :: "store \<Rightarrow> string \<Rightarrow> string \<Rightarrow> store option" where
  "deleteTable st sheetName tableName =
     (case st sheetName of
        None \<Rightarrow> None
      | Some s \<Rightarrow>
          (case remove_table tableName (tables s) of
             None \<Rightarrow> None
           | Some ts \<Rightarrow> Some (st(sheetName \<mapsto> s\<lparr>tables := ts\<rparr>))))"

text \<open>Modelled from the spec: \<open>createSheet\<close>, a new empty sheet; the name must be free.\<close>

definition createSheet :: "store \<Rightarrow> string \<Rightarrow> store option" where
  "createSheet st sheetName =
     (case st sheetName of
        None \<Rightarrow> Some (st(sheetName \<mapsto> \<lparr>plain = [], tables = []\<rparr>))
      | Some s \<Rightarrow> None)"

text \<open>Modelled from the spec: \<open>appendToSheet\<close>, row inserts at the end of a sheet.\<close>

definition appendToSheet :: "store \<Rightarrow> string \<Rightarrow> row list \<Rightarrow> store option" where
  "appendToSheet st sheetName rs =
     (case st sheetName of
        None \<Rightarrow> None
      | Some s \<Rightarrow> Some (st(sheetName \<mapsto> s\<lparr>plain := plain s @ rs\<rparr>)))"

text \<open>
  Modelled from the spec: \<open>deleteRow\<close>, a row delete. How the library numbers the rows of
  a sheet is not in the sources, and its two call sites disagree: \<open>DELETE /api/companies\<close>
  passes \<open>companyIndex + 1\<close>, which is the row it looked up when rows are numbered from 0,
  and \<open>PATCH /api/companies\<close> passes \<open>companyIndex + 2\<close>, which is that row when they are
  numbered from 1. The number of a sheet's first row is therefore a parameter,
  \<open>firstRow\<close>. The handlers delete rows of the \<open>companies\<close> sheet only, so the delete is
  modelled on the plain rows; a number below \<open>firstRow\<close> names no row and is an error, and
  a number past the last row names a blank row of the grid, whose deletion changes
  nothing.
\<close>

definition deleteRow :: "nat \<Rightarrow> store \<Rightarrow> string \<Rightarrow> nat \<Rightarrow> store option" where
  "deleteRow firstRow st sheetName i =
     (case st sheetName of
        None \<Rightarrow> None
      | Some s \<Rightarrow>
          if i < firstRow then None
          else
            Some (st(sheetName \<mapsto>
              s\<lparr>plain := take (i - firstRow) (plain s) @ drop (Suc (i - firstRow)) (plain s)\<rparr>)))"

section \<open>Requests, sessions, responses and the environment\<close>

record session =
  user_type :: string
  user_name :: "string option"

record body =
  body_id :: "string option"
  companyName :: "string option"
  eventName :: "string option"
  name :: "string option"
  username :: "string option"
  password :: "string option"
  image :: "string option"
  enabled :: "bool option"
  phone :: "json option"
  email :: "json option"
  gender :: "string option"
  college :: "string option"
  status :: "string option"
  nationalId :: "string option"

text \<open>
  What the handlers take from outside the repository: the JavaScript built-in
  \<open>decodeURIComponent\<close> (\<open>None\<close> for the \<open>URIError\<close> it throws), \<open>bcrypt.hash\<close>, the file
  host behind \<open>uploadImage\<close> (file name, image, folder; \<open>Some url\<close> when the upload
  succeeded), the clock (\<open>Date.now()\<close> as a decimal string, the same reading for every
  call within one request, and \<open>new Date().toISOString()\<close>), the environment variable
  \<open>NEXTAUTH_URL\<close>, and the number \<open>first_row\<close> that \<open>deleteRow\<close> of the data-access layer
  gives to the first row of a sheet.
\<close>

record env =
  decodeURIComponent :: "string \<Rightarrow> string option"
  bcrypt_hash :: "string \<Rightarrow> string"
  uploadImage :: "string \<Rightarrow> string \<Rightarrow> string \<Rightarrow> string option"
  date_now :: string
  toISOString :: string
  NEXTAUTH_URL :: string
  first_row :: nat

datatype company_json =
  CompanyJson (company_id: "string option") (company_name: "string option")
    (company_username: "string option") (company_image: "string option")
    (company_enabled: "bool option")

datatype event_json =
  EventJson (event_id: string) (event_name: string) (event_image: "string option")
    (event_enabled: bool) (registrations: "nat option") (registrationUrl: "string option")

datatype payload =
    Error string
  | CompaniesBody "company_json list"
  | CompanyBody company_json
  | MessageBody string
  | EventsBody "event_json list"
  | EventBody event_json
  | RegistrationBody string string string

type_synonym response = "nat \<times> payload"

section \<open>POST /api/events/register\<close>

definition event_disabled :: "row list \<Rightarrow> bool" where
  \<comment> \<open>the enabled status is read from the last cell of the first row after the header\<close>
  "event_disabled tableData =
     (length tableData > 1 \<and> length (tableData ! 1) > 0 \<and> last (tableData ! 1) = ''false'')"

definition existingRegistration :: "row list \<Rightarrow> json option \<Rightarrow> json option \<Rightarrow> bool" where
  \<comment> \<open>\<open>registrationData.find((row) => row[2] === email || row[1] === phone)\<close>\<close>
  "existingRegistration tableData em ph =
     list_ex (\<lambda>r. strict_eq (cell r 2) em \<or> strict_eq (cell r 1) ph) (tl tableData)"

definition registration_row :: "env \<Rightarrow> body \<Rightarrow> row" where
  "registration_row ev b =
     [or_empty (name b), json_string (phone b), json_string (email b), or_empty (gender b),
      or_empty (college b), or_empty (status b), or_empty (nationalId b), toISOString ev, []]"

definition register_event :: "env \<Rightarrow> body \<Rightarrow> string \<Rightarrow> string \<Rightarrow> store \<Rightarrow> response \<times> store" where
  "register_event ev b cName eName st =
     (case getTableData st cName eName of
        None \<Rightarrow> ((404, Error ''Event not found''), st)
      | Some tableData \<Rightarrow>
          if tableData = [] then ((404, Error ''Event not found''), st)
          else if event_disabled tableData
          then ((403, Error ''Registration has ended for this event''), st)
          else if existingRegistration tableData (email b) (phone b)
          then ((400, Error ''You are already registered for this event''), st)
          else
            (case addToTable st cName eName (registration_row ev b) of
               None \<Rightarrow> ((404, Error ''Event not found''), st)
             | Some st' \<Rightarrow>
                 ((200, RegistrationBody (or_empty (name b)) (json_string (email b)) (toISOString ev)),
                  st')))"

definition register_company :: "env \<Rightarrow> body \<Rightarrow> string \<Rightarrow> string \<Rightarrow> store \<Rightarrow> response \<times> store" where
  "register_company ev b cName eName st =
     (case getSheetData st ''companies'' of
        None \<Rightarrow> ((404, Error ''Company not found''), st)
      | Some companiesData \<Rightarrow>
          (case find (\<lambda>r. cell r 1 = Some cName) (tl companiesData) of
             None \<Rightarrow> ((404, Error ''Company not found''), st)
           | Some company \<Rightarrow>
               if cell company 5 = Some ''false''
               then ((403, Error ''Registration is unavailable for this company''), st)
               else
                 (case getSheetData st cName of
                    None \<Rightarrow> ((404, Error ''Company not found''), st)
                  | Some sheetData \<Rightarrow>
                      if sheetData = [] then ((404, Error ''Company not found''), st)
                      else register_event ev b cName eName st)))"

definition POST_register :: "env \<Rightarrow> body \<Rightarrow> store \<Rightarrow> response \<times> store" where
  "POST_register ev b st =
     (case decodeURIComponent ev (to_string (companyName b)) of
        None \<Rightarrow> ((500, Error ''Failed to register for event''), st)
      | Some cName \<Rightarrow>
          if falsy (Some cName) \<or> falsy (eventName b) \<or> falsy (name b) \<or> falsy_json (phone b)
             \<or> falsy_json (email b) \<or> falsy (gender b) \<or> falsy (college b) \<or> falsy (status b)
             \<or> falsy (nationalId b)
          then ((400, Error ''All fields are required''), st)
          else if \<not> rx_test emailRegex (json_string (email b))
          then ((400, Error ''Invalid email format''), st)
          else if \<not> rx_test phoneRegex (json_string (phone b))
          then ((400, Error ''Invalid phone number format''), st)
          else register_company ev b cName (or_empty (eventName b)) st)"

subsection \<open>What a registration request targets\<close>

text \<open>
  A request passes the validation of the handler when its company name decodes to a
  non-empty string, the eight other fields are truthy, and the email and the phone,
  converted to strings, match their expressions. The company it targets is the first row of the
  \<open>companies\<close> sheet, below the header, whose name cell is the decoded company name.
\<close>

definition passes_validation :: "env \<Rightarrow> body \<Rightarrow> string \<Rightarrow> bool" where
  "passes_validation ev b cName =
     (decodeURIComponent ev (to_string (companyName b)) = Some cName
      \<and> cName \<noteq> [] \<and> \<not> falsy (eventName b) \<and> \<not> falsy (name b) \<and> \<not> falsy_json (phone b)
      \<and> \<not> falsy_json (email b) \<and> \<not> falsy (gender b) \<and> \<not> falsy (college b)
      \<and> \<not> falsy (status b) \<and> \<not> falsy (nationalId b)
      \<and> rx_test emailRegex (json_string (email b))
      \<and> rx_test phoneRegex (json_string (phone b)))"

definition target_company :: "store \<Rightarrow> string \<Rightarrow> row option" where
  "target_company st cName =
     (case getSheetData st ''companies'' of
        None \<Rightarrow> None
      | Some companiesData \<Rightarrow> find (\<lambda>r. cell r 1 = Some cName) (tl companiesData))"

definition company_disabled :: "store \<Rightarrow> string \<Rightarrow> bool" where
  "company_disabled st cName =
     (case target_company st cName of
        None \<Rightarrow> False
      | Some company \<Rightarrow> cell company 5 = Some ''false'')"

definition company_enabled :: "store \<Rightarrow> string \<Rightarrow> bool" where
  "company_enabled st cName =
     (case target_company st cName of
        None \<Rightarrow> False
      | Some company \<Rightarrow> cell company 5 \<noteq> Some ''false'')"

section \<open>/api/companies\<close>

definition unauthorized :: response where
  "unauthorized = (401, Error ''Unauthorized'')"

definition not_admin :: "session option \<Rightarrow> bool" where
  \<comment> \<open>\<open>!session || session.user.type !== 'admin'\<close>\<close>
  "not_admin s = (case s of None \<Rightarrow> True | Some u \<Rightarrow> user_type u \<noteq> ''admin'')"

definition company_of_row :: "row \<Rightarrow> company_json" where
  "company_of_row r =
     CompanyJson (cell r 0) (cell r 1) (cell r 2) (or_null (cell r 4))
       (Some (cell r 5 \<noteq> Some ''false''))"

definition GET_companies :: "session option \<Rightarrow> store \<Rightarrow> response \<times> store" where
  "GET_companies s st =
     (if not_admin s then (unauthorized, st)
      else
        (case getSheetData st ''companies'' of
           None \<Rightarrow> ((500, Error ''Failed to get companies''), st)
         | Some data \<Rightarrow> ((200, CompaniesBody (map company_of_row (tl data))), st)))"

definition same_but_password :: "row \<Rightarrow> row \<Rightarrow> bool" where
  \<comment> \<open>two rows that differ at most in the password cell, column 3\<close>
  "same_but_password r r' = (take 3 r = take 3 r' \<and> drop 4 r = drop 4 r')"



definition ensure_companies_sheet :: "store \<Rightarrow> store option" where
  \<comment> \<open>the sheet is created with its header when reading it throws\<close>
  "ensure_companies_sheet st =
     (case getSheetData st ''companies'' of
        Some data \<Rightarrow> Some st
      | None \<Rightarrow>
          (case createSheet st ''companies'' of
             None \<Rightarrow> None
           | Some st1 \<Rightarrow>
               appendToSheet st1 ''companies''
                 [[''ID'', ''Name'', ''Username'', ''Password'', ''Image'']]))"

definition company_file :: "env \<Rightarrow> string \<Rightarrow> string" where
  \<comment> \<open>\<open>`company_${id}_${Date.now()}.jpg`\<close>\<close>
  "company_file ev i = ''company_'' @ i @ ''_'' @ date_now ev @ ''.jpg''"

definition new_company_id :: "env \<Rightarrow> string" where
  \<comment> \<open>\<open>`company_${Date.now()}`\<close>\<close>
  "new_company_id ev = ''company_'' @ date_now ev"

definition new_company_image :: "env \<Rightarrow> body \<Rightarrow> string option" where
  "new_company_image ev b =
     (if falsy (image b) then None
      else uploadImage ev (company_file ev (new_company_id ev)) (or_empty (image b))
             ''companies'')"

definition new_company_row :: "env \<Rightarrow> body \<Rightarrow> row" where
  \<comment> \<open>\<open>[id, name, username, hashedPassword, imageUrl]\<close>\<close>
  "new_company_row ev b =
     [new_company_id ev, or_empty (name b), or_empty (username b),
      bcrypt_hash ev (or_empty (password b)), or_empty (new_company_image ev b)]"

definition POST_companies :: "env \<Rightarrow> session option \<Rightarrow> body \<Rightarrow> store \<Rightarrow> response \<times> store" where
  "POST_companies ev s b st =
     (if not_admin s then (unauthorized, st)
      else if falsy (name b) \<or> falsy (username b) \<or> falsy (password b)
      then ((400, Error ''Name, username, and password are required''), st)
      else
        (case ensure_companies_sheet st of
           None \<Rightarrow> ((500, Error ''Failed to create company''), st)
         | Some st1 \<Rightarrow>
             (case getSheetData st1 ''companies'' of
                None \<Rightarrow> ((500, Error ''Failed to create company''), st1)
              | Some existingData \<Rightarrow>
                  if list_ex (\<lambda>r. cell r 2 = username b) (tl existingData)
                  then ((400, Error ''Username already exists''), st1)
                  else
                    (case appendToSheet st1 ''companies'' [new_company_row ev b] of
                       None \<Rightarrow> ((500, Error ''Failed to create company''), st1)
                     | Some st2 \<Rightarrow>
                         (case createSheet st2 (or_empty (name b)) of
                            None \<Rightarrow> ((500, Error ''Failed to create company''), st2)
                          | Some st3 \<Rightarrow>
                              ((200,
                                CompanyBody
                                  (CompanyJson (Some (new_company_id ev)) (name b) (username b)
                                     (new_company_image ev b) None)),
                               st3))))))"

definition DELETE_companies ::
  "env \<Rightarrow> session option \<Rightarrow> string option \<Rightarrow> store \<Rightarrow> response \<times> store" where
  "DELETE_companies ev s i st =
     (if not_admin s then (unauthorized, st)
      else if falsy i then ((400, Error ''Company ID is required''), st)
      else
        (case getSheetData st ''companies'' of
           None \<Rightarrow> ((500, Error ''Failed to delete company''), st)
         | Some data \<Rightarrow>
             (case findIndex (\<lambda>r. cell r 0 = i) (tl data) of
                None \<Rightarrow> ((404, Error ''Company not found''), st)
              | Some companyIndex \<Rightarrow>
                  (case deleteRow (first_row ev) st ''companies'' (companyIndex + 1) of
                     None \<Rightarrow> ((500, Error ''Failed to delete company''), st)
                   | Some st1 \<Rightarrow>
                       ((200,
                         MessageBody
                           (''Company '' @ to_string (cell (tl data ! companyIndex) 1)
                              @ '' deleted successfully'')),
                        st1)))))"

definition updatedCompany :: "env \<Rightarrow> body \<Rightarrow> row \<Rightarrow> row" where
  "updatedCompany ev b r =
     (let r1 = (if falsy (name b) then r else set_cell [] r 1 (or_empty (name b)));
          r2 = (if falsy (username b) then r1 else set_cell [] r1 2 (or_empty (username b)));
          r3 = (if falsy (password b) then r2
                else set_cell [] r2 3 (bcrypt_hash ev (or_empty (password b))));
          r4 = (if falsy (image b) then r3
                else
                  (case uploadImage ev (company_file ev (or_empty (body_id b)))
                          (or_empty (image b)) ''companies'' of
                     None \<Rightarrow> r3
                   | Some url \<Rightarrow> set_cell [] r3 4 url))
      in (case enabled b of None \<Rightarrow> r4 | Some e \<Rightarrow> set_cell [] r4 5 (bool_cell e)))"

definition PATCH_companies :: "env \<Rightarrow> session option \<Rightarrow> body \<Rightarrow> store \<Rightarrow> response \<times> store" where
  "PATCH_companies ev s b st =
     (if not_admin s then (unauthorized, st)
      else if falsy (body_id b) then ((400, Error ''Company ID is required''), st)
      else
        (case getSheetData st ''companies'' of
           None \<Rightarrow> ((500, Error ''Failed to update company''), st)
         | Some data \<Rightarrow>
             (case findIndex (\<lambda>r. cell r 0 = body_id b) (tl data) of
                None \<Rightarrow> ((404, Error ''Company not found''), st)
              | Some companyIndex \<Rightarrow>
                  if \<not> falsy (username b)
                     \<and> username b \<noteq> cell (tl data ! companyIndex) 2
                     \<and> list_ex (\<lambda>r. cell r 2 = username b \<and> cell r 0 \<noteq> body_id b) (tl data)
                  then ((400, Error ''Username already exists''), st)
                  else
                    (let u = updatedCompany ev b (tl data ! companyIndex) in
                       (case deleteRow (first_row ev) st ''companies'' (companyIndex + 2) of
                          None \<Rightarrow> ((500, Error ''Failed to update company''), st)
                        | Some st1 \<Rightarrow>
                            (case appendToSheet st1 ''companies'' [u] of
                               None \<Rightarrow> ((500, Error ''Failed to update company''), st1)
                             | Some st2 \<Rightarrow>
                                 ((200,
                                   CompanyBody
                                     (CompanyJson (cell u 0) (cell u 1) (cell u 2)
                                        (or_null (cell u 4))
                                        (Some (cell u 5 = Some ''true'')))),
                                  st2)))))))"

section \<open>/api/events\<close>

definition not_owner :: "session \<Rightarrow> string \<Rightarrow> bool" where
  \<comment> \<open>\<open>session.user.type !== 'admin' && session.user.name !== companyName\<close>\<close>
  "not_owner u cName = (user_type u \<noteq> ''admin'' \<and> user_name u \<noteq> Some cName)"

definition listed_event :: "string \<Rightarrow> row \<Rightarrow> row option \<Rightarrow> event_json" where
  \<comment> \<open>the event named by a one-cell row, from the two rows below it\<close>
  "listed_event eName headers firstRow =
     EventJson eName eName
       (case findIndex (\<lambda>h. h = ''Image'') headers of
          None \<Rightarrow> None
        | Some imageIndex \<Rightarrow>
            (case firstRow of
               None \<Rightarrow> None
             | Some r \<Rightarrow> or_null (cell r imageIndex)))
       (case findIndex (\<lambda>h. h = ''Enabled'') headers of
          None \<Rightarrow> True
        | Some enabledIndex \<Rightarrow>
            (case firstRow of
               None \<Rightarrow> True
             | Some r \<Rightarrow> cell r enabledIndex \<noteq> Some ''false''))
       (Some 0) None"

fun find_events :: "row list \<Rightarrow> event_json list" where
  "find_events [] = []"
| "find_events (r # below) =
     (if length r = 1 \<and> r ! 0 \<noteq> [] \<and> take 2 (r ! 0) \<noteq> ''ID''
      then [listed_event (r ! 0) (case below of [] \<Rightarrow> [] | h # d \<Rightarrow> h)
              (case below of h # d # ds \<Rightarrow> Some d | _ \<Rightarrow> None)]
      else [])
     @ find_events below"

definition count_registrations :: "store \<Rightarrow> string \<Rightarrow> event_json \<Rightarrow> event_json" where
  \<comment> \<open>\<open>event.registrations = Math.max(0, eventData.length - 1)\<close>; a thrown error is
      logged and leaves the 0 the event was listed with\<close>
  "count_registrations st cName e =
     (case getTableData st cName (event_id e) of
        None \<Rightarrow> e
      | Some eventData \<Rightarrow>
          EventJson (event_id e) (event_name e) (event_image e) (event_enabled e)
            (Some (nat (max 0 (int (length eventData) - 1)))) (registrationUrl e))"

definition GET_events :: "env \<Rightarrow> session option \<Rightarrow> string option \<Rightarrow> store \<Rightarrow> response \<times> store" where
  "GET_events ev s rawCompanyName st =
     (case s of
        None \<Rightarrow> (unauthorized, st)
      | Some u \<Rightarrow>
          if falsy rawCompanyName then ((400, Error ''Company name is required''), st)
          else
            (case decodeURIComponent ev (or_empty rawCompanyName) of
               None \<Rightarrow> ((500, Error ''Failed to get events''), st)
             | Some cName \<Rightarrow>
                 if not_owner u cName
                 then ((403, Error ''Unauthorized to access this company's events''), st)
                 else
                   (case getSheetData st cName of
                      None \<Rightarrow> ((500, Error ''Failed to get events''), st)
                    | Some data \<Rightarrow>
                        ((200, EventsBody (map (count_registrations st cName) (find_events data))),
                         st))))"

definition event_headers :: row where
  "event_headers =
     [''Name'', ''Phone'', ''Email'', ''Gender'', ''College'', ''Status'', ''National ID'',
      ''Registration Date'', ''Image'', ''Enabled'']"

definition indexOf :: "string \<Rightarrow> row \<Rightarrow> nat option" where
  \<comment> \<open>\<open>headers.indexOf(h)\<close>, \<open>None\<close> for \<open>-1\<close>\<close>
  "indexOf h hs = findIndex (\<lambda>x. x = h) hs"

definition event_file :: "env \<Rightarrow> string \<Rightarrow> string \<Rightarrow> string" where
  \<comment> \<open>\<open>`event_${companyName}_${eventName}_${Date.now()}.jpg`\<close>\<close>
  "event_file ev cName eName = ''event_'' @ cName @ ''_'' @ eName @ ''_'' @ date_now ev @ ''.jpg''"

definition new_firstRow :: "string option \<Rightarrow> row" where
  \<comment> \<open>\<open>Array(headers.length).fill('')\<close> with the Image and Enabled cells set\<close>
  "new_firstRow imageUrl =
     (let r0 = replicate (length event_headers) [];
          r1 = (case indexOf ''Image'' event_headers of
                  None \<Rightarrow> r0 | Some i \<Rightarrow> set_cell [] r0 i (or_empty imageUrl))
      in (case indexOf ''Enabled'' event_headers of
            None \<Rightarrow> r1 | Some i \<Rightarrow> set_cell [] r1 i ''true''))"

definition new_event_image :: "env \<Rightarrow> body \<Rightarrow> string option" where
  "new_event_image ev b =
     (if falsy (image b) then None
      else uploadImage ev
             (event_file ev (or_empty (companyName b)) (or_empty (eventName b)))
             (or_empty (image b)) ''events'')"

definition POST_events :: "env \<Rightarrow> session option \<Rightarrow> body \<Rightarrow> store \<Rightarrow> response \<times> store" where
  "POST_events ev s b st =
     (case s of
        None \<Rightarrow> (unauthorized, st)
      | Some u \<Rightarrow>
          if falsy (companyName b) \<or> falsy (eventName b)
          then ((400, Error ''Company name and event name are required''), st)
          else
            (let cName = or_empty (companyName b); eName = or_empty (eventName b) in
               if not_owner u cName
               then ((403, Error ''Unauthorized to create events for this company''), st)
               else
                 (let imageUrl = new_event_image ev b in
                    (case createTable st cName eName event_headers of
                       None \<Rightarrow> ((500, Error ''Failed to create event''), st)
                     | Some st1 \<Rightarrow>
                         (case updateTableData st1 cName eName 1 (new_firstRow imageUrl) of
                            None \<Rightarrow> ((500, Error ''Failed to create event''), st1)
                          | Some st2 \<Rightarrow>
                              ((200,
                                EventBody
                                  (EventJson eName eName imageUrl True None
                                     (Some (NEXTAUTH_URL ev @ ''/'' @ cName @ ''/'' @ eName)))),
                               st2))))))"

definition DELETE_events ::
  "session option \<Rightarrow> string option \<Rightarrow> string option \<Rightarrow> store \<Rightarrow> response \<times> store" where
  "DELETE_events s company event st =
     (case s of
        None \<Rightarrow> (unauthorized, st)
      | Some u \<Rightarrow>
          if falsy company \<or> falsy event
          then ((400, Error ''Company name and event name are required''), st)
          else if not_owner u (or_empty company)
          then ((403, Error ''Unauthorized to delete events for this company''), st)
          else
            (case deleteTable st (or_empty company) (or_empty event) of
               None \<Rightarrow> ((500, Error ''Failed to delete event''), st)
             | Some st1 \<Rightarrow>
                 ((200, MessageBody (''Event '' @ or_empty event @ '' deleted successfully'')),
                  st1)))"

definition patched_image :: "env \<Rightarrow> body \<Rightarrow> row \<Rightarrow> row \<Rightarrow> row" where
  "patched_image ev b headers firstRow =
     (if falsy (image b) then firstRow
      else
        (case uploadImage ev
                (event_file ev (or_empty (companyName b)) (or_empty (eventName b)))
                (or_empty (image b)) ''events'' of
           None \<Rightarrow> firstRow
         | Some url \<Rightarrow>
             (case indexOf ''Image'' headers of
                None \<Rightarrow> firstRow
              | Some imageIndex \<Rightarrow> set_cell [] firstRow imageIndex url)))"

definition event_patched :: "string \<Rightarrow> row \<Rightarrow> row \<Rightarrow> payload" where
  "event_patched eName headers firstRow =
     EventBody
       (EventJson eName eName
          (case indexOf ''Image'' headers of
             None \<Rightarrow> None | Some i \<Rightarrow> or_null (cell firstRow i))
          (case indexOf ''Enabled'' headers of
             None \<Rightarrow> False | Some i \<Rightarrow> cell firstRow i = Some ''true'')
          None None)"

definition PATCH_events :: "env \<Rightarrow> session option \<Rightarrow> body \<Rightarrow> store \<Rightarrow> response \<times> store" where
  "PATCH_events ev s b st =
     (case s of
        None \<Rightarrow> (unauthorized, st)
      | Some u \<Rightarrow>
          if falsy (companyName b) \<or> falsy (eventName b)
          then ((400, Error ''Company name and event name are required''), st)
          else
            (let cName = or_empty (companyName b); eName = or_empty (eventName b) in
               if not_owner u cName
               then ((403, Error ''Unauthorized to update events for this company''), st)
               else
                 (case getTableData st cName eName of
                    None \<Rightarrow> ((500, Error ''Failed to update event''), st)
                  | Some tableData \<Rightarrow>
                      if tableData = [] then ((404, Error ''Event not found''), st)
                      else
                        (let headers = tableData ! 0;
                             r0 = (if length tableData > 1 then tableData ! 1
                                   else replicate (length headers) []);
                             r1 = patched_image ev b headers r0;
                             appended =
                               (case enabled b of
                                  None \<Rightarrow> False
                                | Some e \<Rightarrow> indexOf ''Enabled'' headers = None);
                             headers' = (if appended then headers @ [''Enabled''] else headers);
                             firstRow =
                               (case enabled b of
                                  None \<Rightarrow> r1
                                | Some e \<Rightarrow>
                                    (case indexOf ''Enabled'' headers of
                                       Some enabledIndex \<Rightarrow> set_cell [] r1 enabledIndex (bool_cell e)
                                     | None \<Rightarrow> r1 @ [bool_cell e]))
                         in
                           (case (if appended then updateTableData st cName eName 0 headers'
                                  else Some st) of
                              None \<Rightarrow> ((500, Error ''Failed to update event''), st)
                            | Some st1 \<Rightarrow>
                                (case updateTableData st1 cName eName 1 firstRow of
                                   None \<Rightarrow> ((500, Error ''Failed to update event''), st1)
                                 | Some st2 \<Rightarrow>
                                     ((200, event_patched eName headers' firstRow), st2)))))))"

section \<open>Routing\<close>

text \<open>
  The framework calls the handler exported for the request's path and method. The
  handlers of \<open>/api/companies\<close> and \<open>/api/events\<close> read the session themselves; the
  registration handler never does.
\<close>

datatype request =
    GetCompanies
  | PostCompanies body
  | DeleteCompanies "string option"
  | PatchCompanies body
  | GetEvents "string option"
  | PostEvents body
  | DeleteEvents "string option" "string option"
  | PatchEvents body
  | Register body

fun handle :: "env \<Rightarrow> session option \<Rightarrow> request \<Rightarrow> store \<Rightarrow> response \<times> store" where
  "handle ev s GetCompanies st = GET_companies s st"
| "handle ev s (PostCompanies b) st = POST_companies ev s b st"
| "handle ev s (DeleteCompanies i) st = DELETE_companies ev s i st"
| "handle ev s (PatchCompanies b) st = PATCH_companies ev s b st"
| "handle ev s (GetEvents c) st = GET_events ev s c st"
| "handle ev s (PostEvents b) st = POST_events ev s b st"
| "handle ev s (DeleteEvents c e) st = DELETE_events s c e st"
| "handle ev s (PatchEvents b) st = PATCH_events ev s b st"
| "handle ev s (Register b) st = POST_register ev b st"

fun companies_route :: "request \<Rightarrow> bool" where
  "companies_route GetCompanies = True"
| "companies_route (PostCompanies b) = True"
| "companies_route (DeleteCompanies i) = True"
| "companies_route (PatchCompanies b) = True"
| "companies_route r = False"

fun events_route :: "request \<Rightarrow> bool" where
  "events_route (GetEvents c) = True"
| "events_route (PostEvents b) = True"
| "events_route (DeleteEvents c e) = True"
| "events_route (PatchEvents b) = True"
| "events_route r = False"

section \<open>Concrete inputs\<close>

text \<open>
  An environment, a store and some requests on which the handlers are evaluated below.
  \<open>decode_plain\<close> is \<open>decodeURIComponent\<close> on strings without a percent sign, where the
  built-in returns its argument; no string decoded below has one. Where a row is deleted,
  the numbering of rows is set explicitly.
\<close>

definition decode_plain :: "string \<Rightarrow> string option" where
  "decode_plain s = (if CHR ''%'' \<in> set s then None else Some s)"

definition demo_env :: env where
  "demo_env =
     \<lparr>decodeURIComponent = decode_plain,
      bcrypt_hash = (\<lambda>p. ''$2a$10$'' @ p),
      uploadImage = (\<lambda>f i d. Some (''https://files/'' @ d @ ''/'' @ f)),
      date_now = ''1700000000000'',
      toISOString = ''2023-11-14T22:13:20.000Z'',
      NEXTAUTH_URL = ''http://localhost:3000'',
      first_row = 0\<rparr>"

definition no_body :: body where
  "no_body =
     \<lparr>body_id = None, companyName = None, eventName = None, name = None, username = None,
      password = None, image = None, enabled = None, phone = None, email = None,
      gender = None, college = None, status = None, nationalId = None\<rparr>"

definition admin :: session where
  "admin = \<lparr>user_type = ''admin'', user_name = Some ''Admin''\<rparr>"

definition acme_user :: session where
  "acme_user = \<lparr>user_type = ''company'', user_name = Some ''Acme''\<rparr>"

definition demo_companies :: "row list" where
  "demo_companies =
     [[''ID'', ''Name'', ''Username'', ''Password'', ''Image''],
      [''company_1'', ''Acme'', ''acme'', ''$2a$10$h1'', [], ''true''],
      [''company_2'', ''Birch'', ''birch'', ''$2a$10$h2'', [], ''false'']]"

definition expo_table :: "row list" where
  "expo_table =
     [event_headers,
      [[], [], [], [], [], [], [], [], [], ''true''],
      [''Bob'', ''1111111111'', ''bob@example.org'', ''M'', ''Law'', ''Graduate'', ''555'',
       ''2023-11-01T08:00:00.000Z'', []]]"

definition gala_table :: "row list" where
  "gala_table = [event_headers, [[], [], [], [], [], [], [], [], [], ''false'']]"

definition demo_store :: store where
  "demo_store =
     [''companies'' \<mapsto> \<lparr>plain = demo_companies, tables = []\<rparr>,
      ''Acme'' \<mapsto> \<lparr>plain = [], tables = [(''Expo'', expo_table), (''Gala'', gala_table)]\<rparr>,
      ''Birch'' \<mapsto> \<lparr>plain = [], tables = [(''Fair'', gala_table)]\<rparr>]"

definition ann :: body where
  "ann =
     no_body\<lparr>companyName := Some ''Acme'', eventName := Some ''Expo'', name := Some ''Ann'',
       phone := Some (Str ''0123456789''), email := Some (Str ''ann@example.org''),
       gender := Some ''F'',
       college := Some ''Arts'', status := Some ''Student'', nationalId := Some ''777''\<rparr>"

definition bea :: body where
  "bea = ann\<lparr>companyName := Some ''Birch'', eventName := Some ''Fair'', name := Some ''Bea''\<rparr>"

definition cedar :: body where
  "cedar = no_body\<lparr>name := Some ''Cedar'', username := Some ''cedar'', password := Some ''s3cret''\<rparr>"

definition dove :: body where
  "dove = no_body\<lparr>name := Some ''Dove'', username := Some ''dove'', password := Some ''pa55''\<rparr>"




definition launch :: body where
  "launch =
     no_body\<lparr>companyName := Some ''Acme'', eventName := Some ''Launch'', image := Some ''data:image/jpeg;base64,AAAA''\<rparr>"

definition rehashed_store :: store where
  "rehashed_store =
     [''companies'' \<mapsto>
        \<lparr>plain =
           [[''ID'', ''Name'', ''Username'', ''Password'', ''Image''],
            [''company_1'', ''Acme'', ''acme'', ''$2a$10$other'', [], ''true''],
            [''company_2'', ''Birch'', ''birch'', ''plain text'', [], ''false'']],
         tables = []\<rparr>]"

definition odd_store :: store where
  "odd_store =
     [''companies'' \<mapsto>
        \<lparr>plain =
           [[''ID'', ''Name'', ''Username'', ''Password'', ''Image''],
            [''company_3'', ''undefined'', ''undef'', ''$2a$10$h3'', []]],
         tables = []\<rparr>,
      ''undefined'' \<mapsto>
        \<lparr>plain = [],
         tables = [(''Expo'', [event_headers, [[], [], [], [], [], [], [], [], [], ''true'']])]\<rparr>]"

section \<open>Evaluation on the concrete inputs\<close>

lemmas js_defs =
  cell_def falsy_def falsy_json_def json_string_def strict_eq_def or_null_def or_empty_def
  to_string_def set_cell_def bool_cell_def
  emailRegex_def phoneRegex_def not_space_at_def is_space_def is_digit_def

lemmas store_defs =
  getSheetData_def getTableData_def render_table_def with_table_def addToTable_def
  updateTableData_def createTable_def deleteTable_def createSheet_def appendToSheet_def
  deleteRow_def

lemmas demo_defs =
  demo_env_def decode_plain_def no_body_def admin_def acme_user_def demo_companies_def
  expo_table_def gala_table_def demo_store_def ann_def bea_def event_headers_def
  cedar_def dove_def launch_def

lemmas register_defs =
  POST_register_def register_company_def register_event_def event_disabled_def
  existingRegistration_def registration_row_def

lemmas company_defs =
  GET_companies_def POST_companies_def DELETE_companies_def PATCH_companies_def
  not_admin_def unauthorized_def company_of_row_def ensure_companies_sheet_def
  company_file_def new_company_id_def new_company_image_def new_company_row_def
  updatedCompany_def Let_def

lemmas event_defs =
  GET_events_def POST_events_def DELETE_events_def PATCH_events_def not_owner_def
  listed_event_def count_registrations_def indexOf_def event_file_def new_firstRow_def
  new_event_image_def patched_image_def event_patched_def Let_def

lemma ann_registers:
  "fst (POST_register demo_env ann demo_store) =
     (200, RegistrationBody ''Ann'' ''ann@example.org'' ''2023-11-14T22:13:20.000Z'')"
  by (simp add: register_defs js_defs store_defs demo_defs)

lemma acme_enabled: "company_enabled demo_store ''Acme''"
  by (simp add: company_enabled_def target_company_def js_defs store_defs demo_defs)

lemma birch_disabled: "company_disabled demo_store ''Birch''"
  by (simp add: company_disabled_def target_company_def js_defs store_defs demo_defs)

lemma expo_found: "getTableData demo_store ''Acme'' ''Expo'' = Some expo_table"
  by (simp add: getTableData_def demo_store_def)

lemma gala_found: "getTableData demo_store ''Acme'' ''Gala'' = Some gala_table"
  by (simp add: getTableData_def demo_store_def)

lemma expo_open: "\<not> event_disabled expo_table"
  by (simp add: event_disabled_def expo_table_def)

lemma gala_closed: "event_disabled gala_table"
  by (simp add: event_disabled_def gala_table_def)

lemma cedar_created:
  "fst (POST_companies demo_env (Some admin) cedar demo_store) =
     (200, CompanyBody (CompanyJson (Some ''company_1700000000000'') (Some ''Cedar'')
        (Some ''cedar'') None None))"
  by (simp add: company_defs js_defs store_defs demo_defs cedar_def)

section \<open>Facts about the store\<close>

lemma change_table_found:
  "map_of ts e = Some t \<Longrightarrow>
   \<exists>ts'. change_table e f ts = Some ts' \<and> map_of ts' e = Some (f t)
     \<and> (\<forall>e'. e' \<noteq> e \<longrightarrow> map_of ts' e' = map_of ts e')"
  by (induction ts) (auto split: if_splits)

lemma table_in_sheet:
  assumes "getTableData st c e = Some t"
  shows "\<exists>d. getSheetData st c = Some d \<and> d \<noteq> []"
proof -
  from assms obtain s where s: "st c = Some s" and m: "map_of (tables s) e = Some t"
    by (auto simp: getTableData_def split: option.splits)
  from m have "tables s \<noteq> []" by auto
  then obtain nt ts where "tables s = nt # ts" by (cases "tables s") auto
  with s show ?thesis by (simp add: getSheetData_def render_table_def)
qed

lemma addToTable_appends:
  assumes "getTableData st c e = Some t"
  shows "\<exists>st'. addToTable st c e r = Some st'
           \<and> getTableData st' c e = Some (t @ [r])
           \<and> (\<forall>c' e'. (c', e') \<noteq> (c, e) \<longrightarrow> getTableData st' c' e' = getTableData st c' e')
           \<and> (\<forall>c'. map_option plain (st' c') = map_option plain (st c'))"
proof -
  from assms obtain s where s: "st c = Some s" and m: "map_of (tables s) e = Some t"
    by (auto simp: getTableData_def split: option.splits)
  from change_table_found [OF m, of "\<lambda>t. t @ [r]"] obtain ts' where
    ts': "change_table e (\<lambda>t. t @ [r]) (tables s) = Some ts'"
      "map_of ts' e = Some (t @ [r])" "\<forall>e'. e' \<noteq> e \<longrightarrow> map_of ts' e' = map_of (tables s) e'"
    by blast
  show ?thesis
    using s ts' by (auto simp: addToTable_def with_table_def getTableData_def)
qed

lemma createSheet_other:
  "createSheet st n = Some st' \<Longrightarrow> st n' = Some sh \<Longrightarrow> st' n' = Some sh"
  by (auto simp: createSheet_def split: option.splits)


section \<open>What the two regular expressions accept\<close>

lemma rx_test_split:
  "rx_test ((p, lo, hi) # items) s =
     (\<exists>a r. s = a @ r \<and> lo \<le> length a \<and> (case hi of None \<Rightarrow> True | Some h \<Rightarrow> length a \<le> h)
        \<and> list_all p a \<and> rx_test items r)"
proof
  assume "rx_test ((p, lo, hi) # items) s"
  then obtain k where k: "lo \<le> k" "k \<le> (case hi of None \<Rightarrow> length s | Some h \<Rightarrow> min h (length s))"
    "list_all p (take k s)" "rx_test items (drop k s)"
    by (auto simp: list_ex_iff)
  from k(2) have "k \<le> length s" "case hi of None \<Rightarrow> True | Some h \<Rightarrow> k \<le> h"
    by (auto split: option.splits)
  with k have "s = take k s @ drop k s \<and> lo \<le> length (take k s)
      \<and> (case hi of None \<Rightarrow> True | Some h \<Rightarrow> length (take k s) \<le> h)
      \<and> list_all p (take k s) \<and> rx_test items (drop k s)"
    by (auto simp: min_def split: option.splits)
  then show "\<exists>a r. s = a @ r \<and> lo \<le> length a \<and> (case hi of None \<Rightarrow> True | Some h \<Rightarrow> length a \<le> h)
        \<and> list_all p a \<and> rx_test items r"
    by blast
next
  assume "\<exists>a r. s = a @ r \<and> lo \<le> length a \<and> (case hi of None \<Rightarrow> True | Some h \<Rightarrow> length a \<le> h)
        \<and> list_all p a \<and> rx_test items r"
  then obtain a r where ar: "s = a @ r" "lo \<le> length a"
    "case hi of None \<Rightarrow> True | Some h \<Rightarrow> length a \<le> h" "list_all p a" "rx_test items r"
    by blast
  then have "length a \<in> set [lo ..< Suc (case hi of None \<Rightarrow> length s | Some h \<Rightarrow> min h (length s))]"
    by (auto split: option.splits)
  moreover from ar have "list_all p (take (length a) s) \<and> rx_test items (drop (length a) s)"
    by simp
  ultimately show "rx_test ((p, lo, hi) # items) s"
    unfolding rx_test.simps list_ex_iff by blast
qed

lemma rx_test_char:
  "rx_test ((\<lambda>c. c = x, 1, Some 1) # items) s = (\<exists>r. s = x # r \<and> rx_test items r)"
proof -
  have one: "(1 \<le> length a \<and> length a \<le> 1 \<and> list_all (\<lambda>c. c = x) a) = (a = [x])"
    for a :: string
    by (cases a) auto
  have "rx_test ((\<lambda>c. c = x, 1, Some 1) # items) s =
      (\<exists>a r. s = a @ r \<and> (1 \<le> length a \<and> length a \<le> 1 \<and> list_all (\<lambda>c. c = x) a)
         \<and> rx_test items r)"
    unfolding rx_test_split by simp
  also have "\<dots> = (\<exists>r. s = x # r \<and> rx_test items r)"
    unfolding one by simp
  finally show ?thesis .
qed

lemma rx_test_plus:
  "rx_test ((p, 1, None) # items) s =
     (\<exists>a r. s = a @ r \<and> a \<noteq> [] \<and> list_all p a \<and> rx_test items r)"
proof -
  have ne: "(1 \<le> length a) = (a \<noteq> [])" for a :: string
    by (cases a) auto
  show ?thesis unfolding rx_test_split ne by simp
qed

lemma rx_test_plusI:
  "a \<noteq> [] \<Longrightarrow> list_all p a \<Longrightarrow> rx_test items r \<Longrightarrow> rx_test ((p, 1, None) # items) (a @ r)"
  unfolding rx_test_plus by blast

lemma rx_test_charI:
  "rx_test items r \<Longrightarrow> rx_test ((\<lambda>c. c = x, 1, Some 1) # items) (x # r)"
  unfolding rx_test_char by blast

text \<open>
  The phone expression accepts the strings of 10 to 15 decimal digits; the email
  expression accepts a non-empty part, an \<open>@\<close>, a non-empty part, a dot and a non-empty
  part, none of the parts holding a space or an \<open>@\<close>.
\<close>

lemma phoneRegex_digits:
  "rx_test phoneRegex s = (10 \<le> length s \<and> length s \<le> 15 \<and> list_all is_digit s)"
proof
  assume "rx_test phoneRegex s"
  then obtain k where k: "10 \<le> k" "k \<le> min 15 (length s)" "list_all is_digit (take k s)"
    "drop k s = []"
    by (auto simp: phoneRegex_def list_ex_iff)
  then have "k = length s" by simp
  with k show "10 \<le> length s \<and> length s \<le> 15 \<and> list_all is_digit s" by simp
next
  assume a: "10 \<le> length s \<and> length s \<le> 15 \<and> list_all is_digit s"
  then have "length s \<in> set [10 ..< Suc (min 15 (length s))]" by simp
  with a show "rx_test phoneRegex s"
    by (auto simp: phoneRegex_def list_ex_iff intro!: bexI [of _ "length s"])
qed

lemma emailRegex_shape:
  "rx_test emailRegex s =
     (\<exists>a b c. s = a @ ''@'' @ b @ ''.'' @ c \<and> a \<noteq> [] \<and> b \<noteq> [] \<and> c \<noteq> []
        \<and> list_all not_space_at a \<and> list_all not_space_at b \<and> list_all not_space_at c)"
proof
  assume "rx_test emailRegex s"
  then obtain a b c where "s = a @ CHR ''@'' # b @ CHR ''.'' # c" "a \<noteq> []" "b \<noteq> []" "c \<noteq> []"
    "list_all not_space_at a" "list_all not_space_at b" "list_all not_space_at c"
    unfolding emailRegex_def rx_test_plus rx_test_char rx_test.simps(1) by auto
  then show "\<exists>a b c. s = a @ ''@'' @ b @ ''.'' @ c \<and> a \<noteq> [] \<and> b \<noteq> [] \<and> c \<noteq> []
        \<and> list_all not_space_at a \<and> list_all not_space_at b \<and> list_all not_space_at c"
    by auto
next
  assume "\<exists>a b c. s = a @ ''@'' @ b @ ''.'' @ c \<and> a \<noteq> [] \<and> b \<noteq> [] \<and> c \<noteq> []
        \<and> list_all not_space_at a \<and> list_all not_space_at b \<and> list_all not_space_at c"
  then obtain a b c where s: "s = a @ CHR ''@'' # b @ CHR ''.'' # c"
    and ok: "a \<noteq> []" "b \<noteq> []" "c \<noteq> []"
      "list_all not_space_at a" "list_all not_space_at b" "list_all not_space_at c"
    by auto
  have "rx_test [] []"
    by (simp only: rx_test.simps(1))
  then have "rx_test [(not_space_at, 1, None)] (c @ [])"
    using ok by (intro rx_test_plusI)
  then have "rx_test [(not_space_at, 1, None)] c"
    by (simp only: append_Nil2)
  with ok show "rx_test emailRegex s"
    unfolding emailRegex_def s by (intro rx_test_plusI rx_test_charI)
qed

section \<open>Registration\<close>

lemma validated_request:
  assumes "passes_validation ev b cName"
  shows "POST_register ev b st = register_company ev b cName (or_empty (eventName b)) st"
  using assms by (simp add: passes_validation_def POST_register_def falsy_def)

lemma enabled_company_passes:
  assumes "company_enabled st cName" and "getTableData st cName eName = Some t"
  shows "register_company ev b cName eName st = register_event ev b cName eName st"
proof -
  from table_in_sheet [OF assms(2)] obtain d where "getSheetData st cName = Some d" "d \<noteq> []"
    by blast
  with assms(1) show ?thesis
    by (auto simp: company_enabled_def target_company_def register_company_def
        split: option.splits)
qed

text \<open>
  Claim C1, amended. Take a request whose phone and email are JSON strings, that passes
  the validation and targets an enabled company and an existing, enabled event. It is
  answered 400 \<open>You are already registered for this event\<close>, the store unchanged, when a
  row below the event table's header has the request's email or the request's phone.
  Otherwise it is answered 200 and exactly one row, the registrant's seven fields, the
  timestamp and an empty image cell, is appended to that table by one call of
  \<open>addToTable\<close>; every other table and all plain rows stay as they were.
\<close>

theorem register_once:
  assumes "passes_validation ev b cName" and "company_enabled st cName"
    and "getTableData st cName (or_empty (eventName b)) = Some tableData"
    and "tableData \<noteq> []" and "\<not> event_disabled tableData"
    and "phone b = Some (Str ph)" and "email b = Some (Str em)"
  shows "if list_ex (\<lambda>r. cell r 2 = Some em \<or> cell r 1 = Some ph) (tl tableData)
         then POST_register ev b st =
                ((400, Error ''You are already registered for this event''), st)
         else (\<exists>st'. POST_register ev b st =
                  ((200, RegistrationBody (or_empty (name b)) em (toISOString ev)), st')
                \<and> addToTable st cName (or_empty (eventName b))
                      [or_empty (name b), ph, em,
                       or_empty (gender b), or_empty (college b), or_empty (status b),
                       or_empty (nationalId b), toISOString ev, []] = Some st'
                \<and> getTableData st' cName (or_empty (eventName b)) =
                    Some (tableData @
                      [[or_empty (name b), ph, em,
                        or_empty (gender b), or_empty (college b), or_empty (status b),
                        or_empty (nationalId b), toISOString ev, []]])
                \<and> (\<forall>c e. (c, e) \<noteq> (cName, or_empty (eventName b)) \<longrightarrow>
                      getTableData st' c e = getTableData st c e)
                \<and> (\<forall>c. map_option plain (st' c) = map_option plain (st c)))"
proof -
  have known: "existingRegistration tableData (email b) (phone b) =
      list_ex (\<lambda>r. cell r 2 = Some em \<or> cell r 1 = Some ph) (tl tableData)"
    by (simp add: existingRegistration_def strict_eq_def assms(6,7))
  have row: "registration_row ev b =
      [or_empty (name b), ph, em, or_empty (gender b), or_empty (college b),
       or_empty (status b), or_empty (nationalId b), toISOString ev, []]"
    by (simp add: registration_row_def json_string_def assms(6,7))
  have mail: "json_string (email b) = em"
    by (simp add: json_string_def assms(7))
  show ?thesis
  proof (cases "list_ex (\<lambda>r. cell r 2 = Some em \<or> cell r 1 = Some ph) (tl tableData)")
    case True
    with assms(3,4,5) known show ?thesis
      unfolding validated_request [OF assms(1)] enabled_company_passes [OF assms(2,3)]
      by (simp add: register_event_def)
  next
    case False
    from addToTable_appends [OF assms(3), of "registration_row ev b"] obtain st' where
      "addToTable st cName (or_empty (eventName b)) (registration_row ev b) = Some st'"
      "getTableData st' cName (or_empty (eventName b)) = Some (tableData @ [registration_row ev b])"
      "\<forall>c' e'. (c', e') \<noteq> (cName, or_empty (eventName b)) \<longrightarrow>
          getTableData st' c' e' = getTableData st c' e'"
      "\<forall>c'. map_option plain (st' c') = map_option plain (st c')"
      by blast
    with False assms(3,4,5) known show ?thesis
      unfolding validated_request [OF assms(1)] enabled_company_passes [OF assms(2,3)]
      by (simp add: register_event_def row mail)
  qed
qed

theorem register_once_witness:
  "fst (POST_register demo_env ann demo_store) =
     (200, RegistrationBody ''Ann'' ''ann@example.org'' ''2023-11-14T22:13:20.000Z'')
   \<and> getTableData (snd (POST_register demo_env ann demo_store)) ''Acme'' ''Expo'' =
       Some (expo_table @
         [[''Ann'', ''0123456789'', ''ann@example.org'', ''F'', ''Arts'', ''Student'', ''777'',
           ''2023-11-14T22:13:20.000Z'', []]])
   \<and> getTableData (snd (POST_register demo_env ann demo_store)) ''Acme'' ''Gala'' = Some gala_table
   \<and> POST_register demo_env (ann\<lparr>phone := Some (Str ''1111111111'')\<rparr>) demo_store =
       ((400, Error ''You are already registered for this event''), demo_store)"
proof -
  let ?dup = "ann\<lparr>phone := Some (Str ''1111111111'')\<rparr>"
  have v: "passes_validation demo_env ann ''Acme''"
    by (simp add: passes_validation_def js_defs demo_defs)
  have v': "passes_validation demo_env ?dup ''Acme''"
    by (simp add: passes_validation_def js_defs demo_defs)
  have t: "getTableData demo_store ''Acme'' (or_empty (eventName ann)) = Some expo_table"
    by (simp add: expo_found or_empty_def ann_def no_body_def)
  have t': "getTableData demo_store ''Acme'' (or_empty (eventName ?dup)) = Some expo_table"
    by (simp add: expo_found or_empty_def ann_def no_body_def)
  have ne: "expo_table \<noteq> []"
    by (simp add: expo_table_def)
  have p: "phone ann = Some (Str ''0123456789'')" and e: "email ann = Some (Str ''ann@example.org'')"
    and p': "phone ?dup = Some (Str ''1111111111'')"
    and e': "email ?dup = Some (Str ''ann@example.org'')"
    by (simp_all add: ann_def no_body_def)
  have fresh: "\<not> list_ex (\<lambda>r. cell r 2 = Some ''ann@example.org'' \<or> cell r 1 = Some ''0123456789'')
      (tl expo_table)"
    by (simp add: js_defs demo_defs)
  have known: "list_ex (\<lambda>r. cell r 2 = Some ''ann@example.org'' \<or> cell r 1 = Some ''1111111111'')
      (tl expo_table)"
    by (simp add: js_defs demo_defs)
  have fields: "or_empty (name ann) = ''Ann''" "or_empty (gender ann) = ''F''"
    "or_empty (college ann) = ''Arts''" "or_empty (status ann) = ''Student''"
    "or_empty (nationalId ann) = ''777''" "or_empty (eventName ann) = ''Expo''"
    "toISOString demo_env = ''2023-11-14T22:13:20.000Z''"
    by (simp_all add: or_empty_def ann_def no_body_def demo_env_def)
  from register_once [OF v acme_enabled t ne expo_open p e] fresh
  have first: "fst (POST_register demo_env ann demo_store) =
       (200, RegistrationBody ''Ann'' ''ann@example.org'' ''2023-11-14T22:13:20.000Z'')
     \<and> getTableData (snd (POST_register demo_env ann demo_store)) ''Acme'' ''Expo'' =
         Some (expo_table @
           [[''Ann'', ''0123456789'', ''ann@example.org'', ''F'', ''Arts'', ''Student'', ''777'',
             ''2023-11-14T22:13:20.000Z'', []]])
     \<and> getTableData (snd (POST_register demo_env ann demo_store)) ''Acme'' ''Gala'' =
         getTableData demo_store ''Acme'' ''Gala''"
    by (auto simp: fields)
  from register_once [OF v' acme_enabled t' ne expo_open p' e'] known
  have second: "POST_register demo_env ?dup demo_store =
       ((400, Error ''You are already registered for this event''), demo_store)"
    by simp
  from first second show ?thesis by (simp add: gala_found)
qed

text \<open>
  Against the claim as first stated: at an enabled company and event, a request with the
  phone \<open>123\<close>, which no registrant has, is answered 400 and no row is appended; and a
  request whose phone is the JSON number 1111111111 passes the validation, since the
  expression is tested on the number converted to a string, meets a row with the phone
  \<open>1111111111\<close>, which \<open>===\<close> does not equate with the number, and is answered 200, the
  table one row longer.
\<close>

theorem register_once_counterexample:
  "company_enabled demo_store ''Acme''
   \<and> getTableData demo_store ''Acme'' ''Expo'' = Some expo_table
   \<and> \<not> event_disabled expo_table
   \<and> \<not> existingRegistration expo_table (Some (Str ''ann@example.org'')) (Some (Str ''123''))
   \<and> POST_register demo_env (ann\<lparr>phone := Some (Str ''123'')\<rparr>) demo_store =
       ((400, Error ''Invalid phone number format''), demo_store)
   \<and> passes_validation demo_env (ann\<lparr>phone := Some (NotStr True ''1111111111'')\<rparr>) ''Acme''
   \<and> existingRegistration expo_table (Some (Str ''ann@example.org'')) (Some (Str ''1111111111''))
   \<and> fst (POST_register demo_env (ann\<lparr>phone := Some (NotStr True ''1111111111'')\<rparr>) demo_store) =
       (200, RegistrationBody ''Ann'' ''ann@example.org'' ''2023-11-14T22:13:20.000Z'')
   \<and> map_option length (getTableData demo_store ''Acme'' ''Expo'') = Some 3
   \<and> map_option length
        (getTableData
          (snd (POST_register demo_env (ann\<lparr>phone := Some (NotStr True ''1111111111'')\<rparr>) demo_store))
          ''Acme'' ''Expo'') = Some 4"
  by (simp add: acme_enabled expo_found expo_open)
     (simp add: passes_validation_def register_defs js_defs store_defs demo_defs)

text \<open>
  Claim C2, amended. A request that passes the validation and targets a company whose
  row has \<open>false\<close> in the enabled column is answered 403 \<open>Registration is unavailable for
  this company\<close>, and the store is returned as it was.
\<close>

theorem register_disabled_company:
  assumes "passes_validation ev b cName" and "company_disabled st cName"
  shows "POST_register ev b st =
           ((403, Error ''Registration is unavailable for this company''), st)"
  using assms(2) unfolding validated_request [OF assms(1)]
  by (auto simp: company_disabled_def target_company_def register_company_def
      split: option.splits)

theorem register_disabled_company_witness:
  "passes_validation demo_env bea ''Birch'' \<and> company_disabled demo_store ''Birch''
   \<and> POST_register demo_env bea demo_store =
       ((403, Error ''Registration is unavailable for this company''), demo_store)"
proof -
  have v: "passes_validation demo_env bea ''Birch''"
    by (simp add: passes_validation_def js_defs demo_defs)
  from v birch_disabled register_disabled_company [OF v birch_disabled] show ?thesis by simp
qed

theorem register_disabled_company_counterexample:
  "company_disabled demo_store ''Birch''
   \<and> POST_register demo_env (bea\<lparr>phone := Some (Str ''123'')\<rparr>) demo_store =
       ((400, Error ''Invalid phone number format''), demo_store)"
  by (simp add: birch_disabled) (simp add: POST_register_def js_defs demo_defs)

text \<open>
  Claim C3, amended. A request that passes the validation and targets an enabled company
  and an existing event of it whose first row after the header ends in \<open>false\<close> is
  answered 403 \<open>Registration has ended for this event\<close>, and the store is returned as it
  was.
\<close>

theorem register_disabled_event:
  assumes "passes_validation ev b cName" and "company_enabled st cName"
    and "getTableData st cName (or_empty (eventName b)) = Some tableData"
    and "event_disabled tableData"
  shows "POST_register ev b st = ((403, Error ''Registration has ended for this event''), st)"
proof -
  from assms(4) have "tableData \<noteq> []" by (auto simp: event_disabled_def)
  with assms(3,4) show ?thesis
    unfolding validated_request [OF assms(1)] enabled_company_passes [OF assms(2,3)]
    by (simp add: register_event_def)
qed

theorem register_disabled_event_witness:
  "passes_validation demo_env (ann\<lparr>eventName := Some ''Gala''\<rparr>) ''Acme''
   \<and> company_enabled demo_store ''Acme''
   \<and> getTableData demo_store ''Acme'' ''Gala'' = Some gala_table
   \<and> event_disabled gala_table
   \<and> POST_register demo_env (ann\<lparr>eventName := Some ''Gala''\<rparr>) demo_store =
       ((403, Error ''Registration has ended for this event''), demo_store)"
proof -
  have v: "passes_validation demo_env (ann\<lparr>eventName := Some ''Gala''\<rparr>) ''Acme''"
    by (simp add: passes_validation_def js_defs demo_defs)
  have t: "getTableData demo_store ''Acme'' (or_empty (eventName (ann\<lparr>eventName := Some ''Gala''\<rparr>)))
      = Some gala_table"
    by (simp add: gala_found or_empty_def)
  from register_disabled_event [OF v acme_enabled t gala_closed] v
  show ?thesis by (simp add: acme_enabled gala_found gala_closed)
qed

theorem register_disabled_event_counterexample:
  "getTableData demo_store ''Acme'' ''Gala'' = Some gala_table \<and> event_disabled gala_table
   \<and> POST_register demo_env (ann\<lparr>eventName := Some ''Gala'', email := Some (Str ''ann'')\<rparr>) demo_store =
       ((400, Error ''Invalid email format''), demo_store)
   \<and> getTableData demo_store ''Birch'' ''Fair'' = Some gala_table
   \<and> passes_validation demo_env bea ''Birch''
   \<and> POST_register demo_env bea demo_store =
       ((403, Error ''Registration is unavailable for this company''), demo_store)"
  by (simp add: gala_found gala_closed)
     (simp add: POST_register_def register_company_def passes_validation_def js_defs store_defs demo_defs)

section \<open>The session gate\<close>

text \<open>
  Claim C5. Without a session, every handler of \<open>/api/companies\<close> and of \<open>/api/events\<close>
  answers 401 \<open>Unauthorized\<close> and returns the store as it was. The answer of the
  registration route is the same whatever the session, none included. The handlers of
  \<open>/api/companies\<close> answer 401 as well, store unchanged, to a session whose user type is
  not \<open>admin\<close>.
\<close>

theorem session_gate:
  "((companies_route r \<or> events_route r) \<longrightarrow>
      handle ev None r st = ((401, Error ''Unauthorized''), st))
   \<and> handle ev s (Register b) st = handle ev None (Register b) st
   \<and> ((companies_route r \<and> user_type u \<noteq> ''admin'') \<longrightarrow>
      handle ev (Some u) r st = ((401, Error ''Unauthorized''), st))"
  by (cases r)
     (simp_all add: GET_companies_def POST_companies_def DELETE_companies_def
        PATCH_companies_def GET_events_def POST_events_def DELETE_events_def
        PATCH_events_def not_admin_def unauthorized_def)

theorem session_gate_witness:
  "handle demo_env None
      (PatchCompanies (no_body\<lparr>body_id := Some ''company_1'', enabled := Some False\<rparr>))
      demo_store
     = ((401, Error ''Unauthorized''), demo_store)
   \<and> handle demo_env None (DeleteEvents (Some ''Acme'') (Some ''Expo'')) demo_store
     = ((401, Error ''Unauthorized''), demo_store)
   \<and> handle demo_env (Some acme_user) GetCompanies demo_store
     = ((401, Error ''Unauthorized''), demo_store)
   \<and> handle demo_env (Some admin) (Register ann) demo_store
     = handle demo_env None (Register ann) demo_store
   \<and> fst (handle demo_env None (Register ann) demo_store)
     = (200, RegistrationBody ''Ann'' ''ann@example.org'' ''2023-11-14T22:13:20.000Z'')"
  using
    session_gate [of "PatchCompanies (no_body\<lparr>body_id := Some ''company_1'', enabled := Some False\<rparr>)"
      demo_env demo_store "Some admin" ann acme_user]
    session_gate [of "DeleteEvents (Some ''Acme'') (Some ''Expo'')"
      demo_env demo_store "Some admin" ann acme_user]
    session_gate [of GetCompanies demo_env demo_store "Some admin" ann acme_user]
    ann_registers
  by (simp add: acme_user_def)

section \<open>Companies\<close>

lemma cell_take: "i < n \<Longrightarrow> cell (take n r) i = cell r i"
  by (simp add: cell_def)

lemma cell_drop: "cell (drop n r) i = cell r (n + i)"
  by (auto simp: cell_def)

lemma company_of_row_password:
  assumes "same_but_password r r'"
  shows "company_of_row r = company_of_row r'"
proof -
  from assms have t: "take 3 r = take 3 r'" and d: "drop 4 r = drop 4 r'"
    by (simp_all add: same_but_password_def)
  have low: "cell r i = cell r' i" if "i < 3" for i
    using cell_take [OF that, of r] cell_take [OF that, of r'] t by simp
  have high: "cell r (4 + i) = cell r' (4 + i)" for i
    using cell_drop [of 4 r i] cell_drop [of 4 r' i] d by simp
  from low [of 0] low [of 1] low [of 2] high [of 0] high [of 1]
  show ?thesis by (simp add: company_of_row_def)
qed

lemma companies_password:
  "list_all2 same_but_password d d' \<Longrightarrow> map company_of_row (tl d) = map company_of_row (tl d')"
proof (induction d d' rule: list_all2_induct)
  case Nil
  then show ?case by simp
next
  case (Cons r d r' d')
  have "list_all2 same_but_password d d' \<Longrightarrow> map company_of_row d = map company_of_row d'"
    for d d'
    by (induction d d' rule: list_all2_induct) (simp_all add: company_of_row_password)
  with Cons show ?case by simp
qed

text \<open>
  Claim C7. When \<open>POST /api/companies\<close> succeeds, the last row of the \<open>companies\<close> sheet
  is the new company's: id, name, username, \<open>bcrypt.hash\<close> of the submitted password, and
  image. The stored password cell is the value of the hash, never the password itself
  unless the hash returns its argument. The body of \<open>GET /api/companies\<close> is the same for
  two states of the \<open>companies\<close> sheet whose rows differ at most in the password cell; a
  listed company has an id, a name, a username, an image and an enabled flag, and no
  password.
\<close>

theorem password_hashed_and_hidden:
  "(POST_companies ev s b st = ((200, p), st') \<longrightarrow>
      (\<exists>sh. st' ''companies'' = Some sh \<and> plain sh \<noteq> []
         \<and> last (plain sh) =
             [new_company_id ev, or_empty (name b), or_empty (username b),
              bcrypt_hash ev (or_empty (password b)), or_empty (new_company_image ev b)]))
   \<and> (getSheetData st1 ''companies'' = Some d \<and> getSheetData st2 ''companies'' = Some d'
        \<and> list_all2 same_but_password d d' \<longrightarrow>
      fst (GET_companies s st1) = fst (GET_companies s st2))"
proof (intro conjI impI)
  assume "POST_companies ev s b st = ((200, p), st')"
  then obtain sa sb where
    a: "appendToSheet sa ''companies'' [new_company_row ev b] = Some sb"
    and c: "createSheet sb (or_empty (name b)) = Some st'"
    by (auto simp: POST_companies_def unauthorized_def split: if_splits option.splits)
  from a obtain sh where "sb ''companies'' = Some sh" "plain sh \<noteq> []"
    "last (plain sh) = new_company_row ev b"
    by (auto simp: appendToSheet_def split: option.splits)
  with createSheet_other [OF c] show "\<exists>sh. st' ''companies'' = Some sh \<and> plain sh \<noteq> []
         \<and> last (plain sh) =
             [new_company_id ev, or_empty (name b), or_empty (username b),
              bcrypt_hash ev (or_empty (password b)), or_empty (new_company_image ev b)]"
    by (auto simp: new_company_row_def)
next
  assume "getSheetData st1 ''companies'' = Some d \<and> getSheetData st2 ''companies'' = Some d'
        \<and> list_all2 same_but_password d d'"
  then show "fst (GET_companies s st1) = fst (GET_companies s st2)"
    by (simp add: GET_companies_def companies_password)
qed

theorem password_hashed_and_hidden_witness:
  "fst (POST_companies demo_env (Some admin) cedar demo_store) =
     (200, CompanyBody (CompanyJson (Some ''company_1700000000000'') (Some ''Cedar'')
        (Some ''cedar'') None None))
   \<and> map_option (\<lambda>sh. last (plain sh))
        (snd (POST_companies demo_env (Some admin) cedar demo_store) ''companies'') =
       Some [''company_1700000000000'', ''Cedar'', ''cedar'', ''$2a$10$s3cret'', []]
   \<and> list_all2 same_but_password demo_companies
        [[''ID'', ''Name'', ''Username'', ''Password'', ''Image''],
         [''company_1'', ''Acme'', ''acme'', ''$2a$10$other'', [], ''true''],
         [''company_2'', ''Birch'', ''birch'', ''plain text'', [], ''false'']]
   \<and> fst (GET_companies (Some admin) demo_store) = fst (GET_companies (Some admin) rehashed_store)
   \<and> fst (GET_companies (Some admin) demo_store) =
       (200, CompaniesBody
          [CompanyJson (Some ''company_1'') (Some ''Acme'') (Some ''acme'') None (Some True),
           CompanyJson (Some ''company_2'') (Some ''Birch'') (Some ''birch'') None (Some False)])"
proof -
  let ?r = "POST_companies demo_env (Some admin) cedar demo_store"
  let ?d' = "[[''ID'', ''Name'', ''Username'', ''Password'', ''Image''],
         [''company_1'', ''Acme'', ''acme'', ''$2a$10$other'', [], ''true''],
         [''company_2'', ''Birch'', ''birch'', ''plain text'', [], ''false'']]"
  have post: "?r = ((200, snd (fst ?r)), snd ?r)"
    using cedar_created by (simp add: prod_eq_iff)
  have d: "getSheetData demo_store ''companies'' = Some demo_companies"
    by (simp add: getSheetData_def demo_store_def)
  have d': "getSheetData rehashed_store ''companies'' = Some ?d'"
    by (simp add: getSheetData_def rehashed_store_def)
  have same: "list_all2 same_but_password demo_companies ?d'"
    by (simp add: same_but_password_def demo_companies_def)
  have got: "fst (GET_companies (Some admin) demo_store) =
       (200, CompaniesBody
          [CompanyJson (Some ''company_1'') (Some ''Acme'') (Some ''acme'') None (Some True),
           CompanyJson (Some ''company_2'') (Some ''Birch'') (Some ''birch'') None (Some False)])"
    by (simp add: company_defs js_defs store_defs demo_defs)
  have row: "[new_company_id demo_env, or_empty (name cedar), or_empty (username cedar),
              bcrypt_hash demo_env (or_empty (password cedar)),
              or_empty (new_company_image demo_env cedar)]
      = [''company_1700000000000'', ''Cedar'', ''cedar'', ''$2a$10$s3cret'', []]"
    by (simp add: company_defs js_defs demo_defs cedar_def)
  from password_hashed_and_hidden
    [of demo_env "Some admin" cedar demo_store "snd (fst ?r)" "snd ?r" demo_store demo_companies
      rehashed_store ?d']
    post d d' same
  have "(\<exists>sh. snd ?r ''companies'' = Some sh \<and> plain sh \<noteq> []
         \<and> last (plain sh) = [''company_1700000000000'', ''Cedar'', ''cedar'', ''$2a$10$s3cret'', []])
     \<and> fst (GET_companies (Some admin) demo_store) = fst (GET_companies (Some admin) rehashed_store)"
    unfolding row by blast
  with cedar_created same got show ?thesis by auto
qed

text \<open>
  \<open>DELETE /api/companies\<close> passes \<open>companyIndex + 1\<close> to \<open>deleteRow\<close>. When
  \<open>deleteRow\<close> numbers the rows of a sheet from 0, the header being row 0, that is the
  row whose id the handler looked up, and no other row is removed.
\<close>

lemma findIndex_found:
  "findIndex P xs = Some k \<Longrightarrow> k < length xs \<and> P (xs ! k)"
  by (induction xs arbitrary: k) (auto split: if_splits)

lemma delete_calls_deleteRow:
  assumes "DELETE_companies ev s i st = ((200, p), st')"
    and data: "getSheetData st ''companies'' = Some d"
  shows "\<exists>companyIndex. findIndex (\<lambda>r. cell r 0 = i) (tl d) = Some companyIndex
    \<and> deleteRow (first_row ev) st ''companies'' (companyIndex + 1) = Some st'"
proof (cases "findIndex (\<lambda>r. cell r 0 = i) (tl d)")
  case None
  with assms show ?thesis
    by (simp add: DELETE_companies_def unauthorized_def split: if_splits)
next
  case (Some k)
  show ?thesis
  proof (cases "deleteRow (first_row ev) st ''companies'' (k + 1)")
    case None
    with assms Some show ?thesis
      by (simp add: DELETE_companies_def unauthorized_def split: if_splits)
  next
    case st1: (Some st1)
    with assms Some have "st1 = st'"
      by (simp add: DELETE_companies_def unauthorized_def split: if_splits)
    with Some st1 show ?thesis by simp
  qed
qed

lemma delete_removes_found_row:
  assumes "DELETE_companies ev s i st = ((200, p), st')" and "first_row ev = 0"
    and "st ''companies'' = Some sh" and "tables sh = []"
  shows "\<exists>k. 0 < k \<and> k < length (plain sh) \<and> cell (plain sh ! k) 0 = i
           \<and> map_option plain (st' ''companies'') =
               Some (take k (plain sh) @ drop (Suc k) (plain sh))"
proof -
  from assms(3,4) have data: "getSheetData st ''companies'' = Some (plain sh)"
    by (simp add: getSheetData_def)
  from delete_calls_deleteRow [OF assms(1) data] obtain companyIndex where
    f: "findIndex (\<lambda>r. cell r 0 = i) (tl (plain sh)) = Some companyIndex"
    and d: "deleteRow (first_row ev) st ''companies'' (companyIndex + 1) = Some st'"
    by blast
  from findIndex_found [OF f] have "companyIndex < length (tl (plain sh))"
    "cell (tl (plain sh) ! companyIndex) 0 = i"
    by simp_all
  then have k: "0 < Suc companyIndex" "Suc companyIndex < length (plain sh)"
    "cell (plain sh ! Suc companyIndex) 0 = i"
    by (simp_all add: nth_tl)
  from d assms(2,3) have "map_option plain (st' ''companies'') =
      Some (take (Suc companyIndex) (plain sh) @ drop (Suc (Suc companyIndex)) (plain sh))"
    unfolding deleteRow_def by auto
  with k show ?thesis by blast
qed

text \<open>
  When \<open>deleteRow\<close> numbers the rows from 1 instead, the same call removes the row above
  the one looked up: deleting the first company removes the header.
\<close>

lemma delete_numbered_from_one:
  "getSheetData
     (snd (DELETE_companies (demo_env\<lparr>first_row := 1\<rparr>) (Some admin) (Some ''company_1'') demo_store))
     ''companies'' =
   Some [[''company_1'', ''Acme'', ''acme'', ''$2a$10$h1'', [], ''true''],
         [''company_2'', ''Birch'', ''birch'', ''$2a$10$h2'', [], ''false'']]"
  by (simp add: company_defs js_defs store_defs demo_defs)

text \<open>
  \<open>POST /api/companies\<close> appends one row, and only for a username no row has yet.
\<close>

lemma distinct_middle:
  "u \<notin> set (xs @ ys) \<Longrightarrow> distinct (xs @ ys) \<Longrightarrow> distinct (xs @ [u] @ ys)"
  by auto










text \<open>
  Claim C9, amended. Let \<open>deleteRow\<close> number the rows of a sheet from 1, the header being
  row 1, as the comment on the call in \<open>PATCH\<close> has it. For an admin request to
  \<open>PATCH /api/companies\<close> that supplies only \<open>id\<close> and \<open>enabled\<close>, where a row of
  the companies table has that id: the answer is 200; the first row with that id is taken
  out of the table and appended at its end with cell 5 set to \<open>true\<close> or \<open>false\<close> as
  requested and with its id, name, username, password hash and image cells as they were;
  every other row of the table, and every other sheet, is unchanged.
\<close>

theorem patch_enabled_only:
  assumes "first_row ev = 1" and "\<not> not_admin s"
    and "body_id b = Some i" and "i \<noteq> []"
    and "name b = None" and "username b = None" and "password b = None" and "image b = None"
    and "enabled b = Some e"
    and "st ''companies'' = Some \<lparr>plain = rows, tables = []\<rparr>"
    and "findIndex (\<lambda>r. cell r 0 = Some i) (tl rows) = Some k"
  shows "\<exists>p. PATCH_companies ev s b st =
           ((200, p),
            st(''companies'' \<mapsto>
              \<lparr>plain = take (Suc k) rows @ drop (Suc (Suc k)) rows
                  @ [set_cell [] (rows ! Suc k) 5 (bool_cell e)],
               tables = []\<rparr>))
         \<and> Suc k < length rows \<and> cell (rows ! Suc k) 0 = Some i
         \<and> cell (set_cell [] (rows ! Suc k) 5 (bool_cell e)) 5 = Some (bool_cell e)
         \<and> (\<forall>j. j < 5 \<and> j < length (rows ! Suc k) \<longrightarrow>
               cell (set_cell [] (rows ! Suc k) 5 (bool_cell e)) j = cell (rows ! Suc k) j)"
proof -
  have data: "getSheetData st ''companies'' = Some rows"
    using assms(10) by (simp add: getSheetData_def)
  from findIndex_found [OF assms(11)] have k: "k < length (tl rows)"
    and found: "cell (tl rows ! k) 0 = Some i"
    by simp_all
  then have nth: "tl rows ! k = rows ! Suc k" and len: "Suc k < length rows"
    by (simp_all add: nth_tl)
  have u: "updatedCompany ev b (rows ! Suc k) = set_cell [] (rows ! Suc k) 5 (bool_cell e)"
    by (simp add: updatedCompany_def falsy_def assms(5-9))
  have del: "deleteRow (first_row ev) st ''companies'' (Suc (Suc k)) =
      Some (st(''companies'' \<mapsto> \<lparr>plain = take (Suc k) rows @ drop (Suc (Suc k)) rows, tables = []\<rparr>))"
    by (simp add: deleteRow_def assms(1,10))
  have app: "appendToSheet
      (st(''companies'' \<mapsto> \<lparr>plain = take (Suc k) rows @ drop (Suc (Suc k)) rows, tables = []\<rparr>))
      ''companies'' [set_cell [] (rows ! Suc k) 5 (bool_cell e)] =
      Some (st(''companies'' \<mapsto>
              \<lparr>plain = take (Suc k) rows @ drop (Suc (Suc k)) rows
                  @ [set_cell [] (rows ! Suc k) 5 (bool_cell e)],
               tables = []\<rparr>))"
    by (simp add: appendToSheet_def)
  have "\<exists>p. PATCH_companies ev s b st =
           ((200, p),
            st(''companies'' \<mapsto>
              \<lparr>plain = take (Suc k) rows @ drop (Suc (Suc k)) rows
                  @ [set_cell [] (rows ! Suc k) 5 (bool_cell e)],
               tables = []\<rparr>))"
    using assms(2,4)
    by (simp add: PATCH_companies_def data assms(3,6,11) nth u del app falsy_def Let_def)
  moreover have "cell (set_cell [] (rows ! Suc k) 5 (bool_cell e)) 5 = Some (bool_cell e)"
    by (simp add: set_cell_def cell_def nth_append)
  moreover have "\<forall>j. j < 5 \<and> j < length (rows ! Suc k) \<longrightarrow>
      cell (set_cell [] (rows ! Suc k) 5 (bool_cell e)) j = cell (rows ! Suc k) j"
    by (auto simp: set_cell_def cell_def nth_append)
  ultimately show ?thesis using len found nth by simp
qed

theorem patch_enabled_only_witness:
  "fst (fst (PATCH_companies (demo_env\<lparr>first_row := 1\<rparr>) (Some admin)
         (no_body\<lparr>body_id := Some ''company_1'', enabled := Some False\<rparr>) demo_store)) = 200
   \<and> getSheetData (snd (PATCH_companies (demo_env\<lparr>first_row := 1\<rparr>) (Some admin)
         (no_body\<lparr>body_id := Some ''company_1'', enabled := Some False\<rparr>) demo_store))
         ''companies'' =
     Some [[''ID'', ''Name'', ''Username'', ''Password'', ''Image''],
           [''company_2'', ''Birch'', ''birch'', ''$2a$10$h2'', [], ''false''],
           [''company_1'', ''Acme'', ''acme'', ''$2a$10$h1'', [], ''false'']]"
proof -
  let ?ev = "demo_env\<lparr>first_row := 1\<rparr>"
  let ?b = "no_body\<lparr>body_id := Some ''company_1'', enabled := Some False\<rparr>"
  have sheet: "demo_store ''companies'' = Some \<lparr>plain = demo_companies, tables = []\<rparr>"
    by (simp add: demo_store_def)
  have found: "findIndex (\<lambda>r. cell r 0 = Some ''company_1'') (tl demo_companies) = Some 0"
    by (simp add: demo_companies_def cell_def)
  have rows: "take (Suc 0) demo_companies @ drop (Suc (Suc 0)) demo_companies
      @ [set_cell [] (demo_companies ! Suc 0) 5 (bool_cell False)] =
      [[''ID'', ''Name'', ''Username'', ''Password'', ''Image''],
       [''company_2'', ''Birch'', ''birch'', ''$2a$10$h2'', [], ''false''],
       [''company_1'', ''Acme'', ''acme'', ''$2a$10$h1'', [], ''false'']]"
    by (simp add: demo_companies_def set_cell_def bool_cell_def)
  from patch_enabled_only [of ?ev "Some admin" ?b "''company_1''" False demo_store demo_companies 0,
      OF _ _ _ _ _ _ _ _ _ sheet found]
  obtain p where "PATCH_companies ?ev (Some admin) ?b demo_store =
      ((200, p),
       demo_store(''companies'' \<mapsto>
         \<lparr>plain = take (Suc 0) demo_companies @ drop (Suc (Suc 0)) demo_companies
             @ [set_cell [] (demo_companies ! Suc 0) 5 (bool_cell False)],
          tables = []\<rparr>))"
    by (auto simp: not_admin_def admin_def no_body_def)
  then show ?thesis
    by (simp add: rows getSheetData_def)
qed

text \<open>
  The claim as written has neither hypothesis. With rows numbered from 0, as the call in
  \<open>DELETE /api/companies\<close> has it, the same request leaves the company's old row with
  its old flag, deletes the row of the next company and appends the updated copy. And a
  request without a session is answered 401 and changes nothing.
\<close>

theorem patch_enabled_only_counterexample:
  "fst (PATCH_companies (demo_env\<lparr>first_row := 0\<rparr>) (Some admin)
         (no_body\<lparr>body_id := Some ''company_1'', enabled := Some False\<rparr>) demo_store) =
       (200, CompanyBody (CompanyJson (Some ''company_1'') (Some ''Acme'') (Some ''acme'')
          None (Some False)))
   \<and> getSheetData (snd (PATCH_companies (demo_env\<lparr>first_row := 0\<rparr>) (Some admin)
         (no_body\<lparr>body_id := Some ''company_1'', enabled := Some False\<rparr>) demo_store))
         ''companies'' =
     Some [[''ID'', ''Name'', ''Username'', ''Password'', ''Image''],
           [''company_1'', ''Acme'', ''acme'', ''$2a$10$h1'', [], ''true''],
           [''company_1'', ''Acme'', ''acme'', ''$2a$10$h1'', [], ''false'']]
   \<and> PATCH_companies (demo_env\<lparr>first_row := 1\<rparr>) None
         (no_body\<lparr>body_id := Some ''company_1'', enabled := Some False\<rparr>) demo_store =
       ((401, Error ''Unauthorized''), demo_store)"
  by (simp add: company_defs js_defs store_defs demo_defs)

section \<open>Events\<close>








text \<open>
  A successful registration raises by one the count reported for the event it went to.
\<close>

lemma registration_counted:
  assumes "POST_register ev b st = ((200, p), st')"
  shows "\<exists>cName eName n.
           (\<forall>e. event_id e = eName \<longrightarrow>
              registrations (count_registrations st cName e) = Some n
              \<and> registrations (count_registrations st' cName e) = Some (Suc n))"
proof -
  from assms obtain cName eName where r: "register_event ev b cName eName st = ((200, p), st')"
    by (auto simp: POST_register_def register_company_def split: option.splits if_splits)
  then obtain t where t: "getTableData st cName eName = Some t" "t \<noteq> []"
    and a: "addToTable st cName eName (registration_row ev b) = Some st'"
    by (auto simp: register_event_def split: option.splits if_splits)
  from addToTable_appends [OF t(1), of "registration_row ev b"] a
  have t': "getTableData st' cName eName = Some (t @ [registration_row ev b])"
    by auto
  from t(2) have n: "nat (max 0 (int (length t) - 1)) = length t - 1"
    "nat (max 0 (int (length (t @ [registration_row ev b])) - 1)) = Suc (length t - 1)"
    by (cases t; simp)+
  have "\<forall>e. event_id e = eName \<longrightarrow>
      registrations (count_registrations st cName e) = Some (length t - 1)
      \<and> registrations (count_registrations st' cName e) = Some (Suc (length t - 1))"
    using t(1) t' n by (simp add: count_registrations_def)
  then show ?thesis by blast
qed

text \<open>
  Claim C6. The event \<open>Launch\<close> has just been created through \<open>POST /api/events\<close> and has
  no registrant: its table holds the header row and the row with the image and the
  enabled status. \<open>GET /api/events\<close> reports 1 registration for it, and 2 for \<open>Expo\<close>, which
  has one registrant: the count is the number of rows after the header, the status row
  included.
\<close>

theorem new_event_counts_one:
  "getTableData (snd (POST_events demo_env (Some acme_user) launch demo_store)) ''Acme'' ''Launch'' =
       Some [event_headers,
             [[], [], [], [], [], [], [], [],
              ''https://files/events/event_Acme_Launch_1700000000000.jpg'', ''true'']]
   \<and> fst (GET_events demo_env (Some acme_user) (Some ''Acme'')
        (snd (POST_events demo_env (Some acme_user) launch demo_store))) =
     (200, EventsBody
        [EventJson ''Expo'' ''Expo'' None True (Some 2) None,
         EventJson ''Gala'' ''Gala'' None False (Some 1) None,
         EventJson ''Launch'' ''Launch''
           (Some ''https://files/events/event_Acme_Launch_1700000000000.jpg'') True (Some 1) None])"
  by (simp add: event_defs unauthorized_def js_defs store_defs demo_defs launch_def)

section \<open>Validation of a registration\<close>

text \<open>
  When the company name decodes, a request with an empty company name or with any of the
  other eight fields missing or empty is answered 400 \<open>All fields are required\<close>, and a
  request whose email or phone does not match its expression is answered 400; the store
  is returned as it was.
\<close>

lemma missing_field_rejected:
  assumes "decodeURIComponent ev (to_string (companyName b)) = Some cName"
    and "cName = [] \<or> falsy (eventName b) \<or> falsy (name b) \<or> falsy_json (phone b)
         \<or> falsy_json (email b)
         \<or> falsy (gender b) \<or> falsy (college b) \<or> falsy (status b) \<or> falsy (nationalId b)"
  shows "POST_register ev b st = ((400, Error ''All fields are required''), st)"
  using assms by (auto simp: POST_register_def falsy_def)

lemma malformed_rejected:
  assumes "decodeURIComponent ev (to_string (companyName b)) = Some cName"
    and "\<not> rx_test emailRegex (json_string (email b))
         \<or> \<not> rx_test phoneRegex (json_string (phone b))"
  shows "fst (fst (POST_register ev b st)) = 400 \<and> snd (POST_register ev b st) = st"
  using assms by (auto simp: POST_register_def)

text \<open>
  Claim C10. A request without a company name is not rejected with 400: the handler
  decodes the name before it tests it, and \<open>decodeURIComponent(undefined)\<close> is the
  non-empty string \<open>undefined\<close>. The request is answered 404 when no company has that
  name, and is registered, a row appended, when one has.
\<close>

theorem missing_company_name_not_rejected:
  "POST_register demo_env (ann\<lparr>companyName := None\<rparr>) demo_store =
     ((404, Error ''Company not found''), demo_store)
   \<and> fst (POST_register demo_env (ann\<lparr>companyName := None\<rparr>) odd_store) =
       (200, RegistrationBody ''Ann'' ''ann@example.org'' ''2023-11-14T22:13:20.000Z'')
   \<and> getTableData (snd (POST_register demo_env (ann\<lparr>companyName := None\<rparr>) odd_store))
        ''undefined'' ''Expo'' =
       Some [event_headers, [[], [], [], [], [], [], [], [], [], ''true''],
             [''Ann'', ''0123456789'', ''ann@example.org'', ''F'', ''Arts'', ''Student'', ''777'',
              ''2023-11-14T22:13:20.000Z'', []]]"
  by (simp add: register_defs js_defs store_defs demo_defs odd_store_def)

end
